theory Spec2Isabelle
  imports Main "HOL-Library.Sublist"
begin

section \<open>JavaScript string operations used by the chat client\<close>

text \<open>
  The file \<open>src/src/App.tsx\<close> holds two variants of the component \<open>App\<close> (lines 1-693
  and 693-1572); both define \<open>handleSubmit\<close>, which sends the question to the backend and
  assembles the streamed answer. The operations below are the string methods the two
  functions call. Strings are lists of characters; a character stands for a code unit
  below 256.
\<close>

definition newline :: char where
  "newline = CHR 0x0A"

text \<open>ECMAScript white space and line terminators among the code units below 256.\<close>

definition isWhiteSpace :: "char \<Rightarrow> bool" where
  "isWhiteSpace c = (c \<in> set [CHR 0x09, CHR 0x0A, CHR 0x0B, CHR 0x0C, CHR 0x0D, CHR 0x20, CHR 0xA0])"

text \<open>\<open>s.trim()\<close>\<close>

definition trim :: "string \<Rightarrow> string" where
  "trim s = rev (dropWhile isWhiteSpace (rev (dropWhile isWhiteSpace s)))"

text \<open>\<open>s.split(sep)\<close> for a one-character separator: never the empty list.\<close>

fun split :: "char \<Rightarrow> string \<Rightarrow> string list" where
  "split sep [] = [[]]"
| "split sep (c # cs) =
     (if c = sep then [] # split sep cs
      else (case split sep cs of [] \<Rightarrow> [[c]] | l # ls \<Rightarrow> (c # l) # ls))"

text \<open>\<open>s.startsWith(p)\<close>, \<open>s.endsWith(p)\<close>, \<open>s.includes(p)\<close>\<close>

definition startsWith :: "string \<Rightarrow> string \<Rightarrow> bool" where
  "startsWith s p = prefix p s"

definition endsWith :: "string \<Rightarrow> string \<Rightarrow> bool" where
  "endsWith s p = suffix p s"

definition includes_str :: "string \<Rightarrow> string \<Rightarrow> bool" where
  "includes_str s p = sublist p s"

text \<open>
  \<open>s.slice(a, -b)\<close>: from index \<open>a\<close> up to \<open>b\<close> characters before the end, empty when
  that range is empty. (\<open>s.slice(a)\<close> is \<open>drop a s\<close>, \<open>s.slice(0, n)\<close> is \<open>take n s\<close>.)
\<close>

definition slice :: "nat \<Rightarrow> nat \<Rightarrow> string \<Rightarrow> string" where
  "slice a b s = take (length s - b - a) (drop a s)"

text \<open>\<open>s.replace(pat, rep)\<close> with a string pattern: the first occurrence only.\<close>

fun replace :: "string \<Rightarrow> string \<Rightarrow> string \<Rightarrow> string" where
  "replace pat rep [] = (if pat = [] then rep else [])"
| "replace pat rep (c # cs) =
     (if prefix pat (c # cs) then rep @ drop (length pat) (c # cs)
      else c # replace pat rep cs)"

section \<open>Data model\<close>

datatype role = User | Assistant

text \<open>
  The value \<open>JSON.parse\<close> returns. The interface \<open>Source\<close> is a compile-time type only:
  at run time \<open>sources\<close> holds whatever value the parser produced.
\<close>

datatype json =
    JNull
  | JBool bool
  | JNum int
  | JStr string
  | JArr "json list"
  | JObj "(string \<times> json) list"

text \<open>\<open>interface Message\<close>; \<open>sources = None\<close> is the absent (undefined) property.\<close>

record message =
  role :: role
  content :: string
  sources :: "json option"

text \<open>
  The texts passed to \<open>setError\<close>:
  \<^item> \<open>ChatRequestFailed m\<close>: the template "chat request failed: " followed by \<open>m\<close>
    (lines 322 and 941);
  \<^item> \<open>UnknownSendError\<close>: "unknown error while sending the message" (line 324);
  \<^item> \<open>UpdateFailed\<close>: "updating the conversation failed" (line 316);
  \<^item> \<open>RetryLater\<close>: "chat request failed, please try again later" (line 994);
  \<^item> \<open>SaveFailed\<close>: "saving the conversation history failed" (line 1331).
\<close>

datatype ui_error =
    ChatRequestFailed string
  | UnknownSendError
  | UpdateFailed
  | RetryLater
  | SaveFailed

text \<open>The React state that \<open>handleSubmit\<close> reads and writes.\<close>

record app =
  messages :: "message list"
  input :: string
  isLoading :: bool
  error :: "ui_error option"
  currentChatId :: "string option"

text \<open>
  The state while the response stream is read: the React state together with the two
  local variables \<open>tempResponse\<close> and \<open>sources\<close> of \<open>handleSubmit\<close>.
\<close>

record run = app +
  tempResponse :: string
  sources_var :: json

datatype flow = Next | Break

section \<open>First variant: the stream loop (lines 248-300)\<close>

text \<open>
  The updater given to \<open>setMessages\<close> at lines 276-284 and at lines 290-297. Updaters are
  applied to the current message list as soon as they are queued.
\<close>

definition finishLast_v1 :: "string \<Rightarrow> json \<Rightarrow> message list \<Rightarrow> message list" where
  "finishLast_v1 t s prev =
     (if prev \<noteq> [] \<and> role (last prev) = Assistant
      then butlast prev @ [(last prev)\<lparr>content := t, sources := Some s\<rparr>]
      else prev)"

definition updateLast_v1 :: "string \<Rightarrow> message list \<Rightarrow> message list" where
  "updateLast_v1 t prev =
     (if prev \<noteq> [] \<and> role (last prev) = Assistant
      then butlast prev @ [(last prev)\<lparr>content := t\<rparr>]
      else prev)"

text \<open>
  The body of \<open>for (const line of lines)\<close>, lines 261-298. \<open>parse\<close> is \<open>JSON.parse\<close>:
  \<open>None\<close> when it throws. The exception is caught at line 269.
\<close>

definition line_v1 :: "(string \<Rightarrow> json option) \<Rightarrow> run \<Rightarrow> string \<Rightarrow> run \<times> flow" where
  "line_v1 parse st line =
     (if trim line = [] \<or> \<not> startsWith line ''data: '' then (st, Next)
      else
        let data = drop 5 line in
        if startsWith data ''[SOURCES]'' \<and> endsWith data ''[/SOURCES]'' then
          (case parse (slice 9 10 data) of
             Some j \<Rightarrow> (st\<lparr>sources_var := j\<rparr>, Next)
           | None \<Rightarrow> (st, Next))
        else if data = ''[DONE]'' then
          (st\<lparr>messages := finishLast_v1 (tempResponse st) (sources_var st) (messages st)\<rparr>, Break)
        else if \<not> includes_str data ''[SOURCES]'' \<and> \<not> includes_str data ''[ERROR]''
                \<and> data \<noteq> ''[DONE]'' then
          (let t = tempResponse st @ data
           in (st\<lparr>tempResponse := t, messages := updateLast_v1 t (messages st)\<rparr>, Next))
        else (st, Next))"

fun for_lines_v1 :: "(string \<Rightarrow> json option) \<Rightarrow> run \<Rightarrow> string list \<Rightarrow> run" where
  "for_lines_v1 parse st [] = st"
| "for_lines_v1 parse st (l # ls) =
     (case line_v1 parse st l of
        (st', Break) \<Rightarrow> st'
      | (st', Next) \<Rightarrow> for_lines_v1 parse st' ls)"

text \<open>
  \<open>while (true)\<close>, lines 252-300. Each element of the list is the text
  \<open>decoder.decode(value)\<close> of one chunk; the decoder is called without the stream option,
  so every chunk is decoded on its own. The loop ends when the reader reports \<open>done\<close>.
\<close>

fun read_loop_v1 :: "(string \<Rightarrow> json option) \<Rightarrow> run \<Rightarrow> string list \<Rightarrow> run" where
  "read_loop_v1 parse st [] = st"
| "read_loop_v1 parse st (chunk # rest) =
     read_loop_v1 parse (for_lines_v1 parse st (split newline chunk)) rest"

section \<open>Second variant: the stream loop (lines 896-974)\<close>

definition finishLast_v2 :: "string \<Rightarrow> json \<Rightarrow> message list \<Rightarrow> message list" where
  "finishLast_v2 t s prev =
     (if prev \<noteq> []
      then butlast prev @ [\<lparr>role = Assistant, content = t, sources = Some s\<rparr>]
      else prev)"

definition updateLast_v2 :: "string \<Rightarrow> message list \<Rightarrow> message list" where
  "updateLast_v2 t prev =
     (if prev \<noteq> [] then butlast prev @ [(last prev)\<lparr>content := t\<rparr>] else prev)"

text \<open>
  The body of the \<open>for\<close> loop, lines 932-972. \<open>JSON.parse\<close> is not guarded here: when it
  throws, the exception leaves the loops; \<open>Inl st\<close> is that exception, with the state at
  the moment it is thrown.
\<close>

definition line_v2 :: "(string \<Rightarrow> json option) \<Rightarrow> run \<Rightarrow> string \<Rightarrow> run + run \<times> flow" where
  "line_v2 parse st line =
     (if trim line = [] \<or> \<not> startsWith line ''data: '' then Inr (st, Next)
      else
        let data = drop 6 line in
        if startsWith data ''[SOURCES]'' \<and> endsWith data ''[/SOURCES]'' then
          (case parse (slice 9 10 data) of
             Some j \<Rightarrow> Inr (st\<lparr>sources_var := j\<rparr>, Next)
           | None \<Rightarrow> Inl st)
        else if startsWith data ''[ERROR]'' then
          (let errorMsg = replace ''[/ERROR]'' [] (replace ''[ERROR]'' [] data)
           in Inr (st\<lparr>error := Some (ChatRequestFailed errorMsg)\<rparr>, Break))
        else if data = ''[DONE]'' then
          Inr (st\<lparr>messages := finishLast_v2 (tempResponse st) (sources_var st) (messages st)\<rparr>,
               Break)
        else
          (let t = tempResponse st @ data
           in Inr (st\<lparr>tempResponse := t, messages := updateLast_v2 t (messages st)\<rparr>, Next)))"

fun for_lines_v2 :: "(string \<Rightarrow> json option) \<Rightarrow> run \<Rightarrow> string list \<Rightarrow> run + run" where
  "for_lines_v2 parse st [] = Inr st"
| "for_lines_v2 parse st (l # ls) =
     (case line_v2 parse st l of
        Inl st' \<Rightarrow> Inl st'
      | Inr (st', Break) \<Rightarrow> Inr st'
      | Inr (st', Next) \<Rightarrow> for_lines_v2 parse st' ls)"

fun read_loop_v2 :: "(string \<Rightarrow> json option) \<Rightarrow> run \<Rightarrow> string list \<Rightarrow> run + run" where
  "read_loop_v2 parse st [] = Inr st"
| "read_loop_v2 parse st (chunk # rest) =
     (case for_lines_v2 parse st (split newline chunk) of
        Inl st' \<Rightarrow> Inl st'
      | Inr st' \<Rightarrow> read_loop_v2 parse st' rest)"

section \<open>The environment of \<open>handleSubmit\<close>\<close>

text \<open>
  What the backend answers to the requests of one call of \<open>handleSubmit\<close>:
  \<^item> \<open>post_history\<close>: \<open>POST /api/history\<close>; \<open>Inl m\<close> is an axios error whose text
    (\<open>error.response?.data?.detail || error.message\<close>) is \<open>m\<close>, \<open>Inr i\<close> a response with
    \<open>data.id = i\<close>;
  \<^item> \<open>chat_stream\<close>: \<open>fetch\<close> of \<open>/api/chat/stream\<close>;
  \<^item> \<open>put_history\<close>: whether \<open>PUT /api/history/<id>\<close> succeeds.
  A body is the list of its decoded chunks and how the reader ends: \<open>Eof\<close> when
  \<open>reader.read()\<close> reports \<open>done\<close>, \<open>ReadFailed\<close> when it rejects.
\<close>

datatype stream_end = Eof | ReadFailed

datatype fetch_result =
    FetchRejected
  | NotOk
  | NoBody
  | Body "string list" stream_end

record env =
  post_history :: "string + string"
  chat_stream :: fetch_result
  put_history :: bool

text \<open>
  The requests a call issues, in order. \<open>GetHistory\<close> is the request of
  \<open>fetchChatHistories\<close>, which handles its own failure; the list of conversations it
  stores is not part of \<open>app\<close>.
\<close>

datatype request =
    PostHistory "message list" string
  | PostChatStream string "message list"
  | PutHistory string "message list" string
  | GetHistory

text \<open>\<open>!currentChatId\<close>: the id is \<open>null\<close> or the empty string.\<close>

definition noChat :: "string option \<Rightarrow> bool" where
  "noChat c = (c = None \<or> c = Some [])"

definition start_run :: "app \<Rightarrow> run" where
  "start_run st =
     \<lparr>messages = messages st, input = input st, isLoading = isLoading st, error = error st,
      currentChatId = currentChatId st, tempResponse = [], sources_var = JArr []\<rparr>"

definition app_of :: "run \<Rightarrow> app" where
  "app_of r =
     \<lparr>messages = messages r, input = input r, isLoading = isLoading r, error = error r,
      currentChatId = currentChatId r\<rparr>"

section \<open>First variant: \<open>handleSubmit\<close> (lines 192-329)\<close>

text \<open>
  \<open>handleSubmit\<close> maps the state it is called in, and the answers of the backend, to the
  state it leaves and the requests it issues. (\<open>e.preventDefault()\<close> touches neither.)
  The values of \<open>messages\<close> and \<open>currentChatId\<close> that the function reads are those of the
  call's closure, that is, of the state it is called in.

  The object \<open>assistantMessage\<close> of line 234 is the last element of the message list and
  of the local array \<open>updatedMessages\<close>; the updaters of the loop assign to its fields, so
  the array sent by the \<open>PUT\<close> request of line 306 holds the message list as the loop
  left it. Its title is computed from \<open>updatedMessages[0]?.content\<close>.
\<close>

definition title_v1 :: "message list \<Rightarrow> string" where
  "title_v1 ms = (case ms of [] \<Rightarrow> ''undefined...'' | m # _ \<Rightarrow> take 30 (content m) @ ''...'')"

definition handleSubmit_v1 ::
  "(string \<Rightarrow> json option) \<Rightarrow> env \<Rightarrow> app \<Rightarrow> app \<times> request list" where
  "handleSubmit_v1 parse e st =
     (if trim (input st) = [] then (st, [])
      else
        let currentInput = trim (input st);
            newMessage = \<lparr>role = User, content = currentInput, sources = None\<rparr>;
            assistantMessage = \<lparr>role = Assistant, content = [], sources = Some (JArr [])\<rparr>;
            st1 = st\<lparr>input := [], isLoading := True, error := None\<rparr>;
            create = (if noChat (currentChatId st)
                      then [PostHistory [newMessage] (take 30 currentInput @ ''...'')] else []);
            created = (if noChat (currentChatId st)
                       then (case post_history e of
                               Inl m \<Rightarrow> Inl m
                             | Inr i \<Rightarrow> Inr (st1\<lparr>currentChatId := Some i\<rparr>))
                       else Inr st1)
        in
        case created of
          Inl m \<Rightarrow> (st1\<lparr>error := Some (ChatRequestFailed m), isLoading := False\<rparr>, create)
        | Inr st2 \<Rightarrow>
            let reqs = create @ [PostChatStream currentInput (messages st)];
                st3 = st2\<lparr>messages := messages st @ [newMessage, assistantMessage]\<rparr>
            in
            (case chat_stream e of
               FetchRejected \<Rightarrow> (st2\<lparr>error := Some UnknownSendError, isLoading := False\<rparr>, reqs)
             | NotOk \<Rightarrow> (st2\<lparr>error := Some UnknownSendError, isLoading := False\<rparr>, reqs)
             | NoBody \<Rightarrow> (st3\<lparr>error := Some UnknownSendError, isLoading := False\<rparr>, reqs)
             | Body chunks ending \<Rightarrow>
                 let st4 = app_of (read_loop_v1 parse (start_run st3) chunks) in
                 (case ending of
                    ReadFailed \<Rightarrow>
                      (st4\<lparr>error := Some UnknownSendError, isLoading := False\<rparr>, reqs)
                  | Eof \<Rightarrow>
                      (case currentChatId st of
                         None \<Rightarrow> (st4\<lparr>isLoading := False\<rparr>, reqs)
                       | Some cid \<Rightarrow>
                           if cid = [] then (st4\<lparr>isLoading := False\<rparr>, reqs)
                           else if put_history e then
                             (st4\<lparr>isLoading := False\<rparr>,
                              reqs @ [PutHistory cid (messages st4) (title_v1 (messages st4)),
                                      GetHistory])
                           else
                             (st4\<lparr>error := Some UpdateFailed, isLoading := False\<rparr>,
                              reqs @ [PutHistory cid (messages st4)
                                        (title_v1 (messages st4))])))))"

section \<open>Second variant: \<open>handleSubmit\<close> (lines 867-998)\<close>

text \<open>
  \<open>saveOrUpdateChatHistory\<close>, lines 1311-1333, called with the \<open>currentChatId\<close> that
  \<open>handleSubmit\<close> was created with. It catches its own exceptions.
\<close>

definition saveOrUpdateChatHistory ::
  "env \<Rightarrow> string option \<Rightarrow> message list \<Rightarrow> string \<Rightarrow> app \<Rightarrow> app \<times> request list" where
  "saveOrUpdateChatHistory e chat ms title st =
     (case chat of
        None \<Rightarrow>
          (case post_history e of
             Inl m \<Rightarrow> (st\<lparr>error := Some SaveFailed\<rparr>, [PostHistory ms title])
           | Inr i \<Rightarrow> (st\<lparr>currentChatId := Some i\<rparr>, [PostHistory ms title, GetHistory]))
      | Some cid \<Rightarrow>
          if cid = [] then
            (case post_history e of
               Inl m \<Rightarrow> (st\<lparr>error := Some SaveFailed\<rparr>, [PostHistory ms title])
             | Inr i \<Rightarrow> (st\<lparr>currentChatId := Some i\<rparr>, [PostHistory ms title, GetHistory]))
          else if put_history e then (st, [PutHistory cid ms title, GetHistory])
          else (st\<lparr>error := Some SaveFailed\<rparr>, [PutHistory cid ms title]))"

text \<open>
  Every exception inside the \<open>try\<close> block ends in the handler of line 992; the
  \<open>finally\<close> block clears \<open>isLoading\<close>. The history sent with the request holds the role
  and the content of each message only.
\<close>

definition handleSubmit_v2 ::
  "(string \<Rightarrow> json option) \<Rightarrow> env \<Rightarrow> app \<Rightarrow> app \<times> request list" where
  "handleSubmit_v2 parse e st =
     (if trim (input st) = [] \<or> isLoading st then (st, [])
      else
        let userMessage = \<lparr>role = User, content = trim (input st), sources = None\<rparr>;
            updatedMessages = messages st @ [userMessage];
            assistantMessage = \<lparr>role = Assistant, content = [], sources = None\<rparr>;
            st1 = st\<lparr>isLoading := True, error := None, input := [],
                     messages := updatedMessages @ [assistantMessage]\<rparr>;
            reqs = [PostChatStream (content userMessage)
                      (map (\<lambda>msg. \<lparr>role = role msg, content = content msg, sources = None\<rparr>)
                         updatedMessages)];
            failed = (\<lambda>s. (s\<lparr>error := Some RetryLater, isLoading := False\<rparr>, reqs))
        in
        case chat_stream e of
          FetchRejected \<Rightarrow> failed st1
        | NotOk \<Rightarrow> failed st1
        | NoBody \<Rightarrow> failed st1
        | Body chunks ending \<Rightarrow>
            (case read_loop_v2 parse (start_run st1) chunks of
               Inl r \<Rightarrow> failed (app_of r)
             | Inr r \<Rightarrow>
                 (case ending of
                    ReadFailed \<Rightarrow> failed (app_of r)
                  | Eof \<Rightarrow>
                      let finalMessages =
                            updatedMessages @
                            [\<lparr>role = Assistant, content = tempResponse r,
                              sources = Some (sources_var r)\<rparr>];
                          (st5, saved) =
                            saveOrUpdateChatHistory e (currentChatId st) finalMessages
                              (take 20 (content userMessage) @ ''...'') (app_of r)
                      in (st5\<lparr>messages := finalMessages, isLoading := False\<rparr>,
                          reqs @ saved))))"

section \<open>Payloads and states of the examples\<close>

text \<open>
  The sources payload of the specification's example, the value \<open>JSON.parse\<close> returns
  for it, and \<open>JSON.parse\<close> on the payloads that occur in the examples of this theory: the
  text \<open>not-json\<close> and every text other than the example's array make it throw. The
  general theorems hold for every parser.
\<close>

definition doc_pdf_payload :: string where
  "doc_pdf_payload =
     ''[{'' @ [CHR 0x22] @ ''content'' @ [CHR 0x22] @ '':'' @ [CHR 0x22] @ ''a'' @ [CHR 0x22]
     @ '','' @ [CHR 0x22] @ ''metadata'' @ [CHR 0x22] @ '':{'' @ [CHR 0x22] @ ''source''
     @ [CHR 0x22] @ '':'' @ [CHR 0x22] @ ''doc.pdf'' @ [CHR 0x22] @ ''}}]''"

definition doc_pdf_sources :: json where
  "doc_pdf_sources =
     JArr [JObj [(''content'', JStr ''a''), (''metadata'', JObj [(''source'', JStr ''doc.pdf'')])]]"

definition JSON_parse_examples :: "string \<Rightarrow> json option" where
  "JSON_parse_examples s = (if s = doc_pdf_payload then Some doc_pdf_sources else None)"

text \<open>A conversation with one earlier exchange, an open chat and the question \<open>hi\<close> typed.\<close>

definition example_app :: app where
  "example_app =
     \<lparr>messages = [\<lparr>role = User, content = ''q'', sources = None\<rparr>,
                  \<lparr>role = Assistant, content = ''r'', sources = Some (JArr [])\<rparr>],
      input = ''hi'', isLoading = False, error = None, currentChatId = Some ''c1''\<rparr>"

definition example_env :: "string list \<Rightarrow> env" where
  "example_env chunks =
     \<lparr>post_history = Inr ''c2'', chat_stream = Body chunks Eof, put_history = True\<rparr>"

section \<open>Notions used to state the properties\<close>

text \<open>The state an exception of the second variant's loop carries, or the state it ends in.\<close>

definition state_of :: "run + run \<Rightarrow> run" where
  "state_of x = (case x of Inl r \<Rightarrow> r | Inr r \<Rightarrow> r)"


text \<open>
  The frames that end a stream: the payload starts with \<open>[ERROR]\<close> or is \<open>[DONE]\<close>. They
  are the lines at which the second variant executes \<open>break\<close>.
\<close>

definition terminal_frame :: "string \<Rightarrow> bool" where
  "terminal_frame l =
     (startsWith l ''data: '' \<and> (startsWith (drop 6 l) ''[ERROR]'' \<or> drop 6 l = ''[DONE]''))"

text \<open>
  The frames that carry sources, and the lines that are neither: content frames and lines
  that are not frames.
\<close>

definition sources_frame :: "string \<Rightarrow> bool" where
  "sources_frame l =
     (startsWith l ''data: '' \<and> startsWith (drop 6 l) ''[SOURCES]''
      \<and> endsWith (drop 6 l) ''[/SOURCES]'')"

definition plain_line :: "string \<Rightarrow> bool" where
  "plain_line l = (\<not> terminal_frame l \<and> \<not> sources_frame l)"


text \<open>
  The states the loops pass through. The loops of both variants change the state only by
  processing lines, one after the other: \<open>line_steps\<close> is the state after the given
  lines have been processed. (A line at which \<open>JSON.parse\<close> throws leaves the state as it
  is.)
\<close>

definition line_steps_v1 :: "(string \<Rightarrow> json option) \<Rightarrow> run \<Rightarrow> string list \<Rightarrow> run" where
  "line_steps_v1 parse st ls = foldl (\<lambda>s l. fst (line_v1 parse s l)) st ls"

definition line_step_v2 :: "(string \<Rightarrow> json option) \<Rightarrow> run \<Rightarrow> string \<Rightarrow> run" where
  "line_step_v2 parse st l = (case line_v2 parse st l of Inl st' \<Rightarrow> st' | Inr (st', f) \<Rightarrow> st')"

definition line_steps_v2 :: "(string \<Rightarrow> json option) \<Rightarrow> run \<Rightarrow> string list \<Rightarrow> run" where
  "line_steps_v2 parse st ls = foldl (line_step_v2 parse) st ls"


text \<open>
  The state in which the second variant enters its loop: the user's message and the empty
  assistant message are appended (lines 877-897).
\<close>

definition loop_start_v2 :: "app \<Rightarrow> run" where
  "loop_start_v2 st =
     start_run (st\<lparr>isLoading := True, error := None, input := [],
                   messages := messages st @
                     [\<lparr>role = User, content = trim (input st), sources = None\<rparr>,
                      \<lparr>role = Assistant, content = [], sources = None\<rparr>]\<rparr>)"

text \<open>The loop state of the examples: \<open>example_app\<close> after the question \<open>hi\<close> is submitted.\<close>

definition example_run :: run where
  "example_run = loop_start_v2 example_app"

section \<open>Strings: white space, lines and frames\<close>

lemma trim_eq_Nil_iff: "trim s = [] \<longleftrightarrow> (\<forall>c\<in>set s. isWhiteSpace c)"
proof
  assume "\<forall>c\<in>set s. isWhiteSpace c"
  then have d: "dropWhile isWhiteSpace s = []" by simp
  show "trim s = []" unfolding trim_def d by simp
next
  assume t: "trim s = []"
  show "\<forall>c\<in>set s. isWhiteSpace c"
  proof (cases "dropWhile isWhiteSpace s")
    case Nil
    then show ?thesis by (simp add: dropWhile_eq_Nil_conv)
  next
    case (Cons a as)
    then have "\<not> isWhiteSpace a"
      using hd_dropWhile [of isWhiteSpace s] by simp
    moreover from t Cons have "\<forall>c\<in>set (rev (a # as)). isWhiteSpace c"
      by (simp add: trim_def dropWhile_eq_Nil_conv)
    ultimately show ?thesis by simp
  qed
qed

lemma data_frame_split: "startsWith line ''data: '' \<Longrightarrow> \<exists>payload. line = ''data: '' @ payload"
  by (auto simp: startsWith_def prefix_def)

text \<open>The first test of line 261 (and 932) is implied by the second.\<close>

lemma trim_data_frame: "trim (''data: '' @ payload) \<noteq> []"
  by (simp add: trim_eq_Nil_iff isWhiteSpace_def)





text \<open>The definitions a concrete run is evaluated with.\<close>

lemmas model_defs =
  handleSubmit_v1_def handleSubmit_v2_def saveOrUpdateChatHistory_def
  example_env_def example_app_def example_run_def loop_start_v2_def start_run_def app_of_def
  noChat_def title_v1_def state_of_def
  line_v1_def line_v2_def trim_def isWhiteSpace_def startsWith_def endsWith_def
  includes_str_def newline_def updateLast_v1_def finishLast_v1_def updateLast_v2_def
  finishLast_v2_def slice_def JSON_parse_examples_def doc_pdf_payload_def doc_pdf_sources_def
  Let_def sublist_Cons_right suffix_to_prefix

section \<open>The guard of \<open>handleSubmit\<close>\<close>

text \<open>
  Claim C10. Submitting an input that is empty or holds white space only does nothing, in
  both variants: the call returns at its first test (lines 194 and 869), the whole state
  (message list, current chat id and error state included) is as before, and no request
  is issued.
\<close>

theorem blank_input_is_ignored:
  "\<forall>c\<in>set (input st). isWhiteSpace c \<Longrightarrow>
     handleSubmit_v1 parse e st = (st, []) \<and> handleSubmit_v2 parse e st = (st, [])"
  by (simp add: handleSubmit_v1_def handleSubmit_v2_def trim_eq_Nil_iff)

theorem blank_input_is_ignored_witness:
  "handleSubmit_v1 JSON_parse_examples (example_env []) (example_app\<lparr>input := ''  ''\<rparr>)
     = (example_app\<lparr>input := ''  ''\<rparr>, [])
   \<and> handleSubmit_v2 JSON_parse_examples (example_env []) (example_app\<lparr>input := ''  ''\<rparr>)
     = (example_app\<lparr>input := ''  ''\<rparr>, [])"
  using blank_input_is_ignored
    [of "example_app\<lparr>input := ''  ''\<rparr>" JSON_parse_examples "example_env []"]
  by (simp add: isWhiteSpace_def)

section \<open>First variant: what a line does\<close>


lemma line_v1_other: "\<not> startsWith line ''data: '' \<Longrightarrow> line_v1 parse st line = (st, Next)"
  by (simp add: line_v1_def)

text \<open>
  The first variant cuts the line at index 5 (line 263), one short of the length of the
  prefix \<open>data: \<close>, so the payload it tests keeps the blank of the prefix. It never
  starts with \<open>[SOURCES]\<close> and never equals \<open>[DONE]\<close>: the branches of lines 265-273 and
  275-286 are never taken, and a frame is either dropped or appended with its blank.
\<close>

lemma line_v1_frame:
  "line_v1 parse st (''data: '' @ payload) =
     (if includes_str payload ''[SOURCES]'' \<or> includes_str payload ''[ERROR]'' then (st, Next)
      else (st\<lparr>tempResponse := tempResponse st @ '' '' @ payload,
               messages := updateLast_v1 (tempResponse st @ '' '' @ payload) (messages st)\<rparr>,
            Next))"
  using trim_data_frame [of payload]
  by (auto simp: line_v1_def startsWith_def includes_str_def sublist_Cons_right Let_def)

lemma line_v1_cases:
  obtains "line_v1 parse st line = (st, Next)"
  | payload where "line = ''data: '' @ payload"
      "line_v1 parse st line =
         (st\<lparr>tempResponse := tempResponse st @ '' '' @ payload,
              messages := updateLast_v1 (tempResponse st @ '' '' @ payload) (messages st)\<rparr>,
          Next)"
proof (cases "startsWith line ''data: ''")
  case True
  then obtain payload where "line = ''data: '' @ payload"
    using data_frame_split by blast
  then show ?thesis using that line_v1_frame [of parse st payload]
    by (auto split: if_splits)
next
  case False
  then show ?thesis using that line_v1_other by blast
qed

lemma line_v1_never_breaks: "snd (line_v1 parse st line) = Next"
  by (rule line_v1_cases [of parse st line]) auto

lemma for_lines_v1_Cons:
  "for_lines_v1 parse st (l # ls) = for_lines_v1 parse (fst (line_v1 parse st l)) ls"
  using line_v1_never_breaks [of parse st l] by (cases "line_v1 parse st l") auto






text \<open>
  Claim C9. In the first variant a line that starts with \<open>data: \<close> and whose payload
  contains \<open>[SOURCES]\<close> or \<open>[ERROR]\<close> anywhere leaves the content buffer, and the whole
  state, as it was (the test of line 288): a content fragment that only mentions one of
  the two markers is dropped.
\<close>

theorem marker_mention_is_dropped_v1:
  assumes "startsWith line ''data: ''"
    and "includes_str (drop 6 line) ''[SOURCES]'' \<or> includes_str (drop 6 line) ''[ERROR]''"
  shows "line_v1 parse st line = (st, Next)"
proof -
  from assms(1) obtain payload where l: "line = ''data: '' @ payload"
    using data_frame_split by blast
  with assms(2)
  have "includes_str payload ''[SOURCES]'' \<or> includes_str payload ''[ERROR]''"
    by simp
  then show ?thesis
    unfolding l by (simp only: line_v1_frame if_True)
qed

theorem marker_mention_is_dropped_v1_witness:
  "line_v1 JSON_parse_examples example_run ''data: see [ERROR] codes'' = (example_run, Next)"
  using marker_mention_is_dropped_v1
    [of "''data: see [ERROR] codes''" JSON_parse_examples example_run]
  by (simp add: startsWith_def includes_str_def sublist_Cons_right)

section \<open>Second variant: what a line does\<close>








lemma line_v2_plain:
  assumes "plain_line l"
  shows "\<exists>st'. line_v2 parse st l = Inr (st', Next) \<and> sources_var st' = sources_var st
    \<and> (messages st \<noteq> [] \<longrightarrow> messages st' \<noteq> [])"
  using assms
  by (auto simp: plain_line_def terminal_frame_def sources_frame_def line_v2_def Let_def
      updateLast_v2_def)

lemma line_v2_sources:
  "parse p = Some X \<Longrightarrow>
     line_v2 parse st (''data: [SOURCES]'' @ p @ ''[/SOURCES]'') = Inr (st\<lparr>sources_var := X\<rparr>, Next)"
  using trim_data_frame [of "''[SOURCES]'' @ p @ ''[/SOURCES]''"]
  by (simp add: line_v2_def startsWith_def endsWith_def slice_def Let_def suffix_def)

lemma line_v2_done:
  "line_v2 parse st ''data: [DONE]'' =
     Inr (st\<lparr>messages := finishLast_v2 (tempResponse st) (sources_var st) (messages st)\<rparr>, Break)"
  by (simp add: model_defs)

lemma read_loop_v2_single:
  "read_loop_v2 parse st [c] = for_lines_v2 parse st (split newline c)"
  by (simp split: sum.splits)

text \<open>
  The update after the loop of the second variant (lines 977-990): when the stream is read
  to its end, the message list becomes the earlier messages, the user's message and an
  assistant message with the content buffer and the \<open>sources\<close> variable.
\<close>

lemma handleSubmit_v2_end:
  assumes "trim (input a) \<noteq> []" and "\<not> isLoading a" and "chat_stream e = Body chunks Eof"
    and "read_loop_v2 parse (loop_start_v2 a) chunks = Inr r"
  shows "messages (fst (handleSubmit_v2 parse e a)) =
     messages a @ [\<lparr>role = User, content = trim (input a), sources = None\<rparr>,
                   \<lparr>role = Assistant, content = tempResponse r, sources = Some (sources_var r)\<rparr>]"
  using assms
  by (simp add: handleSubmit_v2_def loop_start_v2_def Let_def split: prod.splits)

section \<open>The specification's example\<close>

text \<open>
  Claim C2. The stream of the three frames \<open>data: Hello\<close>, \<open>data: [SOURCES]\<close> \<open>p\<close>
  \<open>[/SOURCES]\<close> (where \<open>p\<close> is \<open>doc_pdf_payload\<close>, the array of the specification's
  example) and \<open>data: [DONE]\<close>, each line ended by a newline, should end with the last
  assistant message holding the content \<open>Hello\<close> and the one source \<open>doc.pdf\<close>. The first variant ends elsewhere, whatever \<open>JSON.parse\<close> does: the
  content is \<open> Hello [DONE]\<close> (each payload with the blank of the prefix, the \<open>[DONE]\<close>
  frame appended as content) and the sources are the empty list the message was created
  with.
\<close>

theorem spec_example_v1:
  "messages (fst (handleSubmit_v1 parse
      (example_env [''data: Hello\<newline>data: [SOURCES]'' @ doc_pdf_payload
                    @ ''[/SOURCES]\<newline>data: [DONE]\<newline>''])
      example_app))
   = [\<lparr>role = User, content = ''q'', sources = None\<rparr>,
      \<lparr>role = Assistant, content = ''r'', sources = Some (JArr [])\<rparr>,
      \<lparr>role = User, content = ''hi'', sources = None\<rparr>,
      \<lparr>role = Assistant, content = '' Hello [DONE]'', sources = Some (JArr [])\<rparr>]"
  by (simp add: model_defs)

text \<open>The second variant ends as the example says, when \<open>JSON.parse\<close> reads the payload.\<close>

lemma spec_example_v2:
  "parse doc_pdf_payload = Some doc_pdf_sources \<Longrightarrow>
   messages (fst (handleSubmit_v2 parse
      (example_env [''data: Hello\<newline>data: [SOURCES]'' @ doc_pdf_payload
                    @ ''[/SOURCES]\<newline>data: [DONE]\<newline>''])
      example_app))
   = [\<lparr>role = User, content = ''q'', sources = None\<rparr>,
      \<lparr>role = Assistant, content = ''r'', sources = Some (JArr [])\<rparr>,
      \<lparr>role = User, content = ''hi'', sources = None\<rparr>,
      \<lparr>role = Assistant, content = ''Hello'', sources = Some doc_pdf_sources\<rparr>]"
  by (simp add: model_defs)

section \<open>Malformed sources\<close>

text \<open>
  Claim C3. A sources frame whose inner text is not JSON, followed by \<open>data: [DONE]\<close>,
  should be discarded without ending the processing. In the second variant \<open>JSON.parse\<close>
  is called outside any inner \<open>try\<close> (line 938): the exception ends the loop before the
  \<open>[DONE]\<close> frame, the handler of line 992 reports "chat request failed, please try again
  later", the assistant message stays empty and the conversation is not saved.
\<close>

theorem malformed_sources_abort_v2:
  "handleSubmit_v2 JSON_parse_examples
      (example_env [''data: [SOURCES]not-json[/SOURCES]\<newline>data: [DONE]\<newline>''])
      example_app
   = (\<lparr>messages =
         [\<lparr>role = User, content = ''q'', sources = None\<rparr>,
          \<lparr>role = Assistant, content = ''r'', sources = Some (JArr [])\<rparr>,
          \<lparr>role = User, content = ''hi'', sources = None\<rparr>,
          \<lparr>role = Assistant, content = [], sources = None\<rparr>],
        input = [], isLoading = False, error = Some RetryLater,
        currentChatId = Some ''c1''\<rparr>,
      [PostChatStream ''hi''
         [\<lparr>role = User, content = ''q'', sources = None\<rparr>,
          \<lparr>role = Assistant, content = ''r'', sources = None\<rparr>,
          \<lparr>role = User, content = ''hi'', sources = None\<rparr>]])"
  by (simp add: model_defs)

text \<open>
  The first variant guards the call with \<open>try\<close> and \<open>catch\<close> (lines 266-271); there the
  frame changes nothing.
\<close>

lemma malformed_sources_v1:
  "line_v1 parse st ''data: [SOURCES]not-json[/SOURCES]'' = (st, Next)"
  by (simp add: model_defs)

section \<open>Finalisation at \<open>[DONE]\<close>\<close>

text \<open>
  Claim C4. After a sources frame carrying \<open>X\<close>, the frame \<open>data: [DONE]\<close> should attach
  exactly \<open>X\<close> to the last assistant message. In the first variant it attaches nothing:
  for the sources of the specification's example followed by \<open>[DONE]\<close>, the message keeps
  the empty list, and \<open>[DONE]\<close> becomes its content.
\<close>

theorem done_attaches_nothing_v1:
  "last (messages (fst (handleSubmit_v1 parse
      (example_env [''data: [SOURCES]'' @ doc_pdf_payload @ ''[/SOURCES]\<newline>data: [DONE]\<newline>''])
      example_app)))
   = \<lparr>role = Assistant, content = '' [DONE]'', sources = Some (JArr [])\<rparr>"
  by (simp add: model_defs)

text \<open>
  The second variant does attach them: for a chunk whose lines are content frames (or no
  frames), a sources frame that \<open>JSON.parse\<close> reads as \<open>X\<close>, more such lines and then
  \<open>data: [DONE]\<close>, the loop ends with \<open>X\<close> on the last message, and so does \<open>handleSubmit\<close>.
\<close>

lemma for_lines_v2_plain:
  "list_all plain_line ls \<Longrightarrow>
     \<exists>st'. for_lines_v2 parse st (ls @ rest) = for_lines_v2 parse st' rest
       \<and> sources_var st' = sources_var st \<and> (messages st \<noteq> [] \<longrightarrow> messages st' \<noteq> [])"
proof (induction ls arbitrary: st)
  case Nil
  then show ?case by auto
next
  case (Cons l ls)
  then obtain st1 where 1: "line_v2 parse st l = Inr (st1, Next)"
      "sources_var st1 = sources_var st" "messages st \<noteq> [] \<longrightarrow> messages st1 \<noteq> []"
    using line_v2_plain [of l parse st] by auto
  from Cons.prems have "list_all plain_line ls" by simp
  from Cons.IH [OF this, of st1]
  obtain st' where "for_lines_v2 parse st1 (ls @ rest) = for_lines_v2 parse st' rest"
      "sources_var st' = sources_var st1" "messages st1 \<noteq> [] \<longrightarrow> messages st' \<noteq> []"
    by blast
  with 1 show ?case by auto
qed

lemma done_attaches_sources_v2:
  assumes "split newline chunk =
      pre @ [''data: [SOURCES]'' @ p @ ''[/SOURCES]''] @ mid @ [''data: [DONE]''] @ post"
    and "list_all plain_line pre" and "list_all plain_line mid"
    and "parse p = Some X" and "messages st \<noteq> []"
  shows "\<exists>r. read_loop_v2 parse st [chunk] = Inr r \<and> sources_var r = X
    \<and> last (messages r) = \<lparr>role = Assistant, content = tempResponse r, sources = Some X\<rparr>"
proof -
  let ?s = "''data: [SOURCES]'' @ p @ ''[/SOURCES]''"
  obtain st1 where 1: "for_lines_v2 parse st (pre @ ?s # mid @ ''data: [DONE]'' # post)
        = for_lines_v2 parse st1 (?s # mid @ ''data: [DONE]'' # post)"
      "messages st1 \<noteq> []"
    using for_lines_v2_plain [OF assms(2), of parse st] assms(5) by blast
  let ?st2 = "st1\<lparr>sources_var := X\<rparr>"
  have 2: "for_lines_v2 parse st1 (?s # mid @ ''data: [DONE]'' # post)
      = for_lines_v2 parse ?st2 (mid @ ''data: [DONE]'' # post)"
    using line_v2_sources [of parse p X st1] assms(4) by (simp del: append.simps)
  obtain st3 where 3: "for_lines_v2 parse ?st2 (mid @ ''data: [DONE]'' # post)
        = for_lines_v2 parse st3 (''data: [DONE]'' # post)"
      "sources_var st3 = X" "messages st3 \<noteq> []"
    using for_lines_v2_plain [OF assms(3), of parse ?st2 "''data: [DONE]'' # post"] 1(2)
    by (auto simp del: for_lines_v2.simps)
  let ?r = "st3\<lparr>messages := finishLast_v2 (tempResponse st3) (sources_var st3) (messages st3)\<rparr>"
  have 4: "for_lines_v2 parse st3 (''data: [DONE]'' # post) = Inr ?r"
    by (simp add: line_v2_done del: append.simps)
  have "read_loop_v2 parse st [chunk] = Inr ?r"
    using assms(1) 1(1) 2 3(1) 4 by (simp add: read_loop_v2_single del: read_loop_v2.simps)
  moreover have "last (messages ?r) = \<lparr>role = Assistant, content = tempResponse ?r, sources = Some X\<rparr>"
    using 3 by (simp add: finishLast_v2_def)
  ultimately show ?thesis using 3(2) by auto
qed

lemma handleSubmit_v2_attaches_sources:
  assumes "trim (input a) \<noteq> []" and "\<not> isLoading a" and "chat_stream e = Body [chunk] Eof"
    and "split newline chunk =
      pre @ [''data: [SOURCES]'' @ p @ ''[/SOURCES]''] @ mid @ [''data: [DONE]''] @ post"
    and "list_all plain_line pre" and "list_all plain_line mid" and "parse p = Some X"
  shows "sources (last (messages (fst (handleSubmit_v2 parse e a)))) = Some X"
proof -
  have "messages (loop_start_v2 a) \<noteq> []"
    by (simp add: loop_start_v2_def start_run_def)
  then obtain r where "read_loop_v2 parse (loop_start_v2 a) [chunk] = Inr r" "sources_var r = X"
    using done_attaches_sources_v2
      [of chunk pre p mid post parse X "loop_start_v2 a"] assms(4-7)
    by blast
  then show ?thesis
    using handleSubmit_v2_end [OF assms(1-3)] by simp
qed

section \<open>Termination of the stream\<close>

text \<open>
  Claim C5. Once a \<open>[DONE]\<close> or \<open>[ERROR]\<close> frame is processed, no later frame should be
  processed and the content buffer should not change again. The \<open>break\<close> of lines 942 and
  957 leaves the \<open>for\<close> loop only: the rest of the chunk is skipped, the next chunk is
  read and processed. In the second variant the content \<open>B\<close> of a chunk that arrives after
  \<open>[DONE]\<close> is appended.
\<close>

theorem content_after_done_v2:
  "last (messages (fst (handleSubmit_v2 parse
      (example_env [''data: A\<newline>data: [DONE]\<newline>'', ''data: B\<newline>''])
      example_app)))
   = \<lparr>role = Assistant, content = ''AB'', sources = Some (JArr [])\<rparr>"
  by (simp add: model_defs)

section \<open>Errors signalled by the backend\<close>

text \<open>
  Claim C6. A frame whose payload starts with \<open>[ERROR]\<close> should set the error state and
  stop the processing, and is never appended to the content. The first variant has no
  branch for it: the frame is dropped by the test of line 288, the error state stays
  empty, and the following chunk is appended to the content.
\<close>

theorem error_frame_unreported_v1:
  "error (fst (handleSubmit_v1 parse
      (example_env [''data: [ERROR]boom[/ERROR]\<newline>'', ''data: more\<newline>''])
      example_app)) = None
   \<and> last (messages (fst (handleSubmit_v1 parse
      (example_env [''data: [ERROR]boom[/ERROR]\<newline>'', ''data: more\<newline>''])
      example_app)))
     = \<lparr>role = Assistant, content = '' more'', sources = Some (JArr [])\<rparr>"
  by (simp add: model_defs)

text \<open>
  The second variant reports the error and keeps the payload out of the content, but goes
  on with the next chunk.
\<close>

lemma error_frame_v2:
  "error (fst (handleSubmit_v2 parse
      (example_env [''data: [ERROR]boom[/ERROR]\<newline>'', ''data: more\<newline>''])
      example_app)) = Some (ChatRequestFailed ''boom'')
   \<and> content (last (messages (fst (handleSubmit_v2 parse
      (example_env [''data: [ERROR]boom[/ERROR]\<newline>'', ''data: more\<newline>''])
      example_app)))) = ''more''"
  by (simp add: model_defs)

section \<open>Chunk boundaries\<close>









text \<open>
  The outcome also depends on the chunks when a frame follows a \<open>[DONE]\<close> frame: the
  second variant skips it when it arrives in the chunk of the \<open>[DONE]\<close> frame and
  processes it when it arrives in a later chunk.
\<close>

lemma frames_after_done_v2:
  "tempResponse (state_of (read_loop_v2 parse example_run
       [''data: [DONE]\<newline>data: B\<newline>''])) = []
   \<and> tempResponse (state_of (read_loop_v2 parse example_run
       [''data: [DONE]\<newline>'', ''data: B\<newline>''])) = ''B''"
  by (simp add: model_defs)





section \<open>Streams without \<open>[DONE]\<close>\<close>






section \<open>Content and sources during streaming\<close>






text \<open>Every state of the loops is the state after some lines have been processed.\<close>

lemma for_lines_v1_steps:
  "\<exists>ks. for_lines_v1 parse (line_steps_v1 parse st0 ls) xs = line_steps_v1 parse st0 (ls @ ks)"
proof (induction xs arbitrary: ls)
  case Nil
  show ?case by (rule exI [of _ "[]"]) simp
next
  case (Cons x xs)
  obtain ks where
    "for_lines_v1 parse (line_steps_v1 parse st0 (ls @ [x])) xs
       = line_steps_v1 parse st0 ((ls @ [x]) @ ks)"
    using Cons [of "ls @ [x]"] by blast
  then have "for_lines_v1 parse (line_steps_v1 parse st0 ls) (x # xs)
      = line_steps_v1 parse st0 (ls @ x # ks)"
    by (simp add: for_lines_v1_Cons line_steps_v1_def del: for_lines_v1.simps(2))
  then show ?case by blast
qed

lemma read_loop_v1_steps:
  "\<exists>ks. read_loop_v1 parse (line_steps_v1 parse st0 ls) chunks
     = line_steps_v1 parse st0 (ls @ ks)"
proof (induction chunks arbitrary: ls)
  case Nil
  show ?case by (rule exI [of _ "[]"]) simp
next
  case (Cons c cs)
  obtain ks where k: "for_lines_v1 parse (line_steps_v1 parse st0 ls) (split newline c)
      = line_steps_v1 parse st0 (ls @ ks)"
    using for_lines_v1_steps by blast
  obtain ks' where "read_loop_v1 parse (line_steps_v1 parse st0 (ls @ ks)) cs
      = line_steps_v1 parse st0 ((ls @ ks) @ ks')"
    using Cons [of "ls @ ks"] by blast
  with k have "read_loop_v1 parse (line_steps_v1 parse st0 ls) (c # cs)
      = line_steps_v1 parse st0 (ls @ ks @ ks')"
    by simp
  then show ?case by blast
qed

lemma for_lines_v2_steps:
  "\<exists>ks. state_of (for_lines_v2 parse (line_steps_v2 parse st0 ls) xs)
     = line_steps_v2 parse st0 (ls @ ks)"
proof (induction xs arbitrary: ls)
  case Nil
  show ?case by (rule exI [of _ "[]"]) (simp add: state_of_def)
next
  case (Cons x xs)
  let ?st = "line_steps_v2 parse st0 ls"
  have step: "line_steps_v2 parse st0 (ls @ [x]) = line_step_v2 parse ?st x"
    by (simp add: line_steps_v2_def)
  show ?case
  proof (cases "line_v2 parse ?st x")
    case (Inl r)
    then have "state_of (for_lines_v2 parse ?st (x # xs)) = line_steps_v2 parse st0 (ls @ [x])"
      by (simp add: step state_of_def line_step_v2_def)
    then show ?thesis by blast
  next
    case (Inr p)
    obtain st' f where p: "p = (st', f)" by (cases p)
    with Inr have st': "line_steps_v2 parse st0 (ls @ [x]) = st'"
      by (simp add: step line_step_v2_def)
    show ?thesis
    proof (cases f)
      case Break
      with Inr p st'
      have "state_of (for_lines_v2 parse ?st (x # xs)) = line_steps_v2 parse st0 (ls @ [x])"
        by (simp add: state_of_def)
      then show ?thesis by blast
    next
      case Next
      obtain ks where "state_of (for_lines_v2 parse (line_steps_v2 parse st0 (ls @ [x])) xs)
          = line_steps_v2 parse st0 ((ls @ [x]) @ ks)"
        using Cons [of "ls @ [x]"] by blast
      with Inr p st' Next
      have "state_of (for_lines_v2 parse ?st (x # xs)) = line_steps_v2 parse st0 (ls @ x # ks)"
        by simp
      then show ?thesis by blast
    qed
  qed
qed

lemma read_loop_v2_steps:
  "\<exists>ks. state_of (read_loop_v2 parse (line_steps_v2 parse st0 ls) chunks)
     = line_steps_v2 parse st0 (ls @ ks)"
proof (induction chunks arbitrary: ls)
  case Nil
  show ?case by (rule exI [of _ "[]"]) (simp add: state_of_def)
next
  case (Cons c cs)
  let ?st = "line_steps_v2 parse st0 ls"
  obtain ks where k: "state_of (for_lines_v2 parse ?st (split newline c))
      = line_steps_v2 parse st0 (ls @ ks)"
    using for_lines_v2_steps by blast
  show ?case
  proof (cases "for_lines_v2 parse ?st (split newline c)")
    case (Inl r)
    with k have "state_of (read_loop_v2 parse ?st (c # cs)) = line_steps_v2 parse st0 (ls @ ks)"
      by (simp add: state_of_def)
    then show ?thesis by blast
  next
    case (Inr r)
    with k have r: "r = line_steps_v2 parse st0 (ls @ ks)"
      by (simp add: state_of_def)
    obtain ks' where "state_of (read_loop_v2 parse (line_steps_v2 parse st0 (ls @ ks)) cs)
        = line_steps_v2 parse st0 ((ls @ ks) @ ks')"
      using Cons [of "ls @ ks"] by blast
    with Inr r have "state_of (read_loop_v2 parse ?st (c # cs))
        = line_steps_v2 parse st0 (ls @ ks @ ks')"
      by simp
    then show ?thesis by blast
  qed
qed

lemma read_loop_v1_is_line_steps:
  "\<exists>ks. read_loop_v1 parse st chunks = line_steps_v1 parse st ks"
  using read_loop_v1_steps [of parse st "[]" chunks] by (simp add: line_steps_v1_def)

lemma read_loop_v2_is_line_steps:
  "\<exists>ks. state_of (read_loop_v2 parse st chunks) = line_steps_v2 parse st ks"
  using read_loop_v2_steps [of parse st "[]" chunks] by (simp add: line_steps_v2_def)




end
